theory Spec2Isabelle
  imports Complex_Main "HOL-Library.Sublist" "HOL-Library.AList"
begin

section \<open>Values of the program\<close>

text \<open>
  The service in \<^verbatim>\<open>backend/services/llm_service.py\<close> works on the values that
  \<^verbatim>\<open>json.loads\<close> produces. A dict is an association list in insertion order, read
  with \<open>map_of\<close> and written with \<open>AList.update\<close> (an existing key keeps its
  place, a new key goes to the end, as in Python). A Python \<^verbatim>\<open>float\<close> is idealised as
  an exact rational: rounding, infinities and NaN are not modelled. Strings are
  \<open>string\<close>, so characters are 8-bit.
\<close>

datatype json =
    JNull
  | JBool bool
  | JInt int
  | JFloat rat
  | JStr string
  | JArr "json list"
  | JObj "(string \<times> json) list"

type_synonym dict = "(string \<times> json) list"

text \<open>The exceptions the modelled code can raise; \<open>Inl\<close> of a result is a raise.\<close>

datatype exn = AttributeError | TypeError | ValueError | OverflowError | KeyError

definition ebind :: "exn + 'a \<Rightarrow> ('a \<Rightarrow> exn + 'b) \<Rightarrow> exn + 'b" where
  "ebind m f = (case m of Inl e \<Rightarrow> Inl e | Inr x \<Rightarrow> f x)"

text \<open>\<^verbatim>\<open>bool(v)\<close>: the truth value Python gives a JSON value.\<close>

fun truthy :: "json \<Rightarrow> bool" where
  "truthy JNull = False"
| "truthy (JBool b) = b"
| "truthy (JInt i) = (i \<noteq> 0)"
| "truthy (JFloat r) = (r \<noteq> 0)"
| "truthy (JStr s) = (s \<noteq> [])"
| "truthy (JArr xs) = (xs \<noteq> [])"
| "truthy (JObj d) = (d \<noteq> [])"

text \<open>\<^verbatim>\<open>a or b\<close>\<close>

definition py_or :: "json \<Rightarrow> json \<Rightarrow> json" where
  "py_or a b = (if truthy a then a else b)"

text \<open>\<^verbatim>\<open>k in d\<close> and \<^verbatim>\<open>d.get(k, dflt)\<close> on a dict.\<close>

definition has_key :: "dict \<Rightarrow> string \<Rightarrow> bool" where
  "has_key d k = (map_of d k \<noteq> None)"

definition dict_get :: "dict \<Rightarrow> string \<Rightarrow> json \<Rightarrow> json" where
  "dict_get d k dflt = (case map_of d k of Some v \<Rightarrow> v | None \<Rightarrow> dflt)"

text \<open>\<^verbatim>\<open>v.get(k, dflt)\<close> on any value: only a dict has the method.\<close>

fun py_get :: "json \<Rightarrow> string \<Rightarrow> json \<Rightarrow> exn + json" where
  "py_get (JObj d) k dflt = Inr (dict_get d k dflt)"
| "py_get _ k dflt = Inl AttributeError"

text \<open>\<^verbatim>\<open>d[k]\<close> on a dict.\<close>

definition dict_item :: "dict \<Rightarrow> string \<Rightarrow> exn + json" where
  "dict_item d k = (case map_of d k of Some v \<Rightarrow> Inr v | None \<Rightarrow> Inl KeyError)"

text \<open>\<^verbatim>\<open>v.setdefault(k, x)\<close>: the dict afterwards; only a dict has the method.\<close>

fun py_setdefault :: "json \<Rightarrow> string \<Rightarrow> json \<Rightarrow> exn + json" where
  "py_setdefault (JObj d) k x = Inr (JObj (if has_key d k then d else d @ [(k, x)]))"
| "py_setdefault _ k x = Inl AttributeError"

text \<open>
  \<^verbatim>\<open>k in v\<close> for a string \<open>k\<close> and any value \<open>v\<close>: key membership in a dict,
  element membership in a list, substring in a string, \<^verbatim>\<open>TypeError\<close> otherwise.
\<close>

fun py_contains :: "string \<Rightarrow> json \<Rightarrow> exn + bool" where
  "py_contains k (JObj d) = Inr (has_key d k)"
| "py_contains k (JArr xs) = Inr (JStr k \<in> set xs)"
| "py_contains k (JStr s) = Inr (sublist k s)"
| "py_contains k _ = Inl TypeError"

fun is_dict :: "json \<Rightarrow> bool" where
  "is_dict (JObj d) = True"
| "is_dict _ = False"

subsection \<open>Numbers\<close>

text \<open>
  A value at or beyond \<open>float_max\<close> in magnitude has no finite double:
  converting such an \<^verbatim>\<open>int\<close> raises \<^verbatim>\<open>OverflowError\<close>, and so does \<^verbatim>\<open>int()\<close>
  of a product that large.
\<close>

definition float_max :: rat where
  "float_max = 2 ^ 1024 - 2 ^ 970"

definition int_to_float :: "int \<Rightarrow> exn + rat" where
  "int_to_float i = (if \<bar>of_int i\<bar> < float_max then Inr (of_int i) else Inl OverflowError)"

text \<open>
  \<^verbatim>\<open>float(v)\<close>. What \<^verbatim>\<open>float\<close> makes of a string is the builtin's business: it is the
  parameter \<open>sf\<close>, \<open>None\<close> where the builtin raises \<^verbatim>\<open>ValueError\<close>.
\<close>

fun py_float :: "(string \<Rightarrow> rat option) \<Rightarrow> json \<Rightarrow> exn + rat" where
  "py_float sf (JInt i) = int_to_float i"
| "py_float sf (JFloat r) = Inr r"
| "py_float sf (JBool b) = Inr (if b then 1 else 0)"
| "py_float sf (JStr s) = (case sf s of Some r \<Rightarrow> Inr r | None \<Rightarrow> Inl ValueError)"
| "py_float sf _ = Inl TypeError"

text \<open>\<^verbatim>\<open>min(xs)\<close> and \<^verbatim>\<open>max(xs)\<close> of a list: \<^verbatim>\<open>ValueError\<close> on the empty list.\<close>

fun py_min :: "rat list \<Rightarrow> exn + rat" where
  "py_min [] = Inl ValueError"
| "py_min (x # xs) = Inr (fold min xs x)"

fun py_max :: "rat list \<Rightarrow> exn + rat" where
  "py_max [] = Inl ValueError"
| "py_max (x # xs) = Inr (fold max xs x)"

section \<open>Bounding box of a path\<close>

record bbox =
  min_x :: rat
  max_x :: rat
  min_y :: rat
  max_y :: rat

text \<open>
  The loop over \<^verbatim>\<open>pathData["points"]\<close>. Its \<^verbatim>\<open>try\<close> covers both appends, so a
  point whose \<open>x\<close> converts and whose \<open>y\<close> does not leaves its \<open>x\<close> in \<open>xs\<close>.
\<close>

definition coord :: "(string \<Rightarrow> rat option) \<Rightarrow> json \<Rightarrow> string \<Rightarrow> exn + rat" where
  "coord sf p k = ebind (py_get p k (JInt 0)) (py_float sf)"

fun points_loop ::
  "(string \<Rightarrow> rat option) \<Rightarrow> json list \<Rightarrow> rat list \<times> rat list \<Rightarrow> rat list \<times> rat list" where
  "points_loop sf [] acc = acc"
| "points_loop sf (p # ps) (xs, ys) =
     (case coord sf p ''x'' of
        Inl e \<Rightarrow> points_loop sf ps (xs, ys)
      | Inr x \<Rightarrow>
          (case coord sf p ''y'' of
             Inl e \<Rightarrow> points_loop sf ps (xs @ [x], ys)
           | Inr y \<Rightarrow> points_loop sf ps (xs @ [x], ys @ [y])))"

text \<open>
  The \<^verbatim>\<open>else\<close> branch: \<^verbatim>\<open>start\<close> and \<^verbatim>\<open>end\<close>. Each \<^verbatim>\<open>extend\<close> builds its
  two-element list first, so a raise leaves the list it was meant for unchanged.
\<close>

definition start_end ::
  "(string \<Rightarrow> rat option) \<Rightarrow> dict \<Rightarrow> rat list \<times> rat list" where
  "start_end sf pd =
     (let start = dict_get pd ''start'' JNull; end = dict_get pd ''end'' JNull in
      if is_dict start \<and> is_dict end then
        (case ebind (coord sf start ''x'') (\<lambda>a. ebind (coord sf end ''x'') (\<lambda>b. Inr [a, b])) of
           Inl e \<Rightarrow> ([], [])
         | Inr xs \<Rightarrow>
             (case ebind (coord sf start ''y'') (\<lambda>a. ebind (coord sf end ''y'') (\<lambda>b. Inr [a, b])) of
                Inl e \<Rightarrow> (xs, [])
              | Inr ys \<Rightarrow> (xs, ys)))
      else ([], []))"

fun is_list :: "json \<Rightarrow> bool" where
  "is_list (JArr xs) = True"
| "is_list _ = False"

fun the_list :: "json \<Rightarrow> json list" where
  "the_list (JArr xs) = xs"
| "the_list _ = []"

definition gather :: "(string \<Rightarrow> rat option) \<Rightarrow> dict \<Rightarrow> exn + rat list \<times> rat list" where
  "gather sf pd =
     (if has_key pd ''points'' \<and> is_list (dict_get pd ''points'' JNull) then
        ebind (dict_item pd ''points'') (\<lambda>pts. Inr (points_loop sf (the_list pts) ([], [])))
      else Inr (start_end sf pd))"

fun bbox_from_path :: "(string \<Rightarrow> rat option) \<Rightarrow> json \<Rightarrow> exn + bbox option" where
  "bbox_from_path sf (JObj pd) =
     ebind (gather sf pd) (\<lambda>(xs, ys).
       if xs = [] \<or> ys = [] then Inr None
       else
         ebind (py_min xs) (\<lambda>x0. ebind (py_max xs) (\<lambda>x1.
         ebind (py_min ys) (\<lambda>y0. ebind (py_max ys) (\<lambda>y1.
           Inr (Some \<lparr>min_x = x0, max_x = x1, min_y = y0, max_y = y1\<rparr>))))))"
| "bbox_from_path sf _ = Inr None"

section \<open>Style mapper\<close>

text \<open>\<^verbatim>\<open>str.lower()\<close>, on the ASCII letters.\<close>

definition lower_char :: "char \<Rightarrow> char" where
  "lower_char c =
     (let n = (of_char c :: nat) in if 65 \<le> n \<and> n \<le> 90 then char_of (n + 32) else c)"

definition lower :: "string \<Rightarrow> string" where
  "lower s = map lower_char s"

definition map_style_to_brush :: "string \<Rightarrow> string \<times> dict" where
  "map_style_to_brush style_prompt =
     (let s = lower style_prompt in
      if sublist ''watercolor'' s \<or> sublist ''wash'' s then
        (''spray'', [(''opacity'', JFloat (6 / 10)), (''scatterAmount'', JFloat (2 / 10))])
      else if sublist ''van gogh'' s \<or> sublist ''oil'' s \<or> sublist ''impasto'' s then
        (''mixed'',
         [(''base'', JStr ''wacky''),
          (''texture'', JStr ''thick''),
          (''mixColors'', JArr [JStr ''#FFCC33'', JStr ''#FF9900'', JStr ''#FFFF66'']),
          (''opacity'', JFloat (9 / 10)),
          (''mixAmount'', JFloat (6 / 10))])
      else if sublist ''neon'' s \<or> sublist ''glow'' s then
        (''neon'', [(''glow'', JBool True), (''intensity'', JFloat (9 / 10))])
      else if sublist ''chalk'' s \<or> sublist ''pastel'' s then
        (''chalk'', [(''grain'', JFloat (6 / 10))])
      else if sublist ''spray'' s \<or> sublist ''splatter'' s then
        (''spray'', [(''scatterAmount'', JFloat (5 / 10))])
      else if sublist ''drip'' s then
        (''drip'', [(''dripRate'', JFloat (4 / 10))])
      else if sublist ''scatter'' s then
        (''scatter'', [(''scatterAmount'', JFloat (4 / 10))])
      else if sublist ''mixed'' s then
        (''mixed'',
         [(''mixColors'', JArr [JStr ''#FFFFFF'', JStr ''#000000'']),
          (''mixAmount'', JFloat (5 / 10))])
      else if sublist ''stamp'' s \<or> sublist ''sticker'' s \<or> sublist ''collage'' s then
        (''normal'', [(''preferStamp'', JBool True)])
      else (''normal'', []))"

text \<open>The style test that guards overlay synthesis in \<^verbatim>\<open>_postprocess_style_objects\<close>.\<close>

definition oil_style :: "string \<Rightarrow> bool" where
  "oil_style style_prompt =
     (let s = lower style_prompt in
      sublist ''van gogh'' s \<or> sublist ''oil'' s \<or> sublist ''impasto'' s)"

section \<open>Overlay synthesis\<close>

text \<open>\<^verbatim>\<open>int(x)\<close> of a float: truncation towards zero.\<close>

definition py_trunc :: "rat \<Rightarrow> int" where
  "py_trunc r = (if 0 \<le> r then \<lfloor>r\<rfloor> else \<lceil>r\<rceil>)"

definition py_int :: "rat \<Rightarrow> exn + int" where
  "py_int r = (if \<bar>r\<bar> < float_max then Inr (py_trunc r) else Inl OverflowError)"

text \<open>\<^verbatim>\<open>v * m\<close> for a float \<open>m\<close>.\<close>

fun mul_float :: "json \<Rightarrow> rat \<Rightarrow> exn + rat" where
  "mul_float (JInt i) m = ebind (int_to_float i) (\<lambda>x. Inr (x * m))"
| "mul_float (JFloat r) m = Inr (r * m)"
| "mul_float (JBool b) m = Inr ((if b then 1 else 0) * m)"
| "mul_float _ m = Inl TypeError"

definition overlay_color :: "dict \<Rightarrow> exn + json" where
  "overlay_color obj =
     ebind (py_get (dict_get obj ''metadata'' (JObj [])) ''brushParams'' (JObj [])) (\<lambda>bp.
     ebind (py_get bp ''mixColors'' (JArr [])) (\<lambda>color.
       Inr (case color of
              JArr (c # cs) \<Rightarrow> c
            | _ \<Rightarrow> dict_get obj ''color'' (JStr ''#000000''))))"

definition make_stroke ::
  "dict \<Rightarrow> bbox \<Rightarrow> dict \<Rightarrow> json \<Rightarrow> int \<Rightarrow> (rat \<times> rat) list \<Rightarrow> rat \<Rightarrow> exn + json" where
  "make_stroke obj bb default_params color offs rel_points lw_mult =
     (let width = max_x bb - min_x bb;
          height = max_y bb - min_y bb;
          cx = (min_x bb + max_x bb) / 2;
          cy = (min_y bb + max_y bb) / 2;
          pts = map (\<lambda>(rx, ry).
                  JObj [(''x'', JFloat (cx + rx * width + of_int offs)),
                        (''y'', JFloat (cy + ry * height + of_int offs))]) rel_points
      in
      ebind (mul_float (dict_get obj ''lineWidth'' (JInt 2)) lw_mult) (\<lambda>w.
      ebind (py_int w) (\<lambda>n.
        Inr (JObj
          [(''color'', color),
           (''lineWidth'', JInt (max 2 n)),
           (''pathData'',
              JObj [(''tool'', JStr ''freehand''), (''type'', JStr ''stroke''),
                    (''points'', JArr pts)]),
           (''metadata'',
              JObj [(''drawingType'', JStr ''stroke''),
                    (''brushType'', dict_get default_params ''base'' (JStr ''wacky'')),
                    (''brushParams'',
                       JObj (AList.update ''opacity''
                               (dict_get default_params ''opacity'' (JFloat (9 / 10)))
                               default_params))])]))))"

definition create_impasto_overlays :: "dict \<Rightarrow> bbox \<Rightarrow> dict \<Rightarrow> nat \<Rightarrow> exn + json list" where
  "create_impasto_overlays obj bb default_params idx =
     ebind (overlay_color obj) (\<lambda>color.
       let offs = (int (idx mod 3) - 1) * 4 in
       ebind (make_stroke obj bb default_params color offs
                [(- (3 / 10), - (2 / 10)), (- (1 / 10), - (25 / 100)), (1 / 10, - (15 / 100))] 1)
         (\<lambda>stroke1.
       ebind (make_stroke obj bb default_params color offs
                [(- (4 / 10), 1 / 10), (0, 15 / 100), (35 / 100, 5 / 100)] (13 / 10))
         (\<lambda>stroke2. Inr [stroke1, stroke2])))"

section \<open>Style post-processing\<close>

definition stamp_data :: "dict \<Rightarrow> json" where
  "stamp_data obj =
     JObj [(''imageDataUrl'',
              py_or (dict_get obj ''imageDataUrl'' JNull) (dict_get obj ''image'' JNull)),
           (''x'', dict_get obj ''x'' (JInt 0)),
           (''y'', dict_get obj ''y'' (JInt 0)),
           (''width'', dict_get obj ''width'' JNull),
           (''height'', dict_get obj ''height'' JNull)]"

definition is_image_obj :: "dict \<Rightarrow> bool" where
  "is_image_obj obj =
     (dict_get obj ''drawingType'' JNull = JStr ''image'' \<or>
      truthy (dict_get obj ''imageDataUrl'' JNull))"

text \<open>
  The body of the first loop for a dict \<open>obj\<close>: the object with its metadata set, and
  whether it counts as explicitly styled.
\<close>

definition enrich :: "string \<Rightarrow> dict \<Rightarrow> dict \<Rightarrow> exn + json \<times> bool" where
  "enrich default_brush default_params obj =
     (let had_meta = has_key obj ''metadata'';
          meta = py_or (dict_get obj ''metadata'' (JObj [])) (JObj [])
      in
      ebind
        (if is_image_obj obj then
           ebind (py_setdefault meta ''drawingType'' (JStr ''image'')) (\<lambda>m1.
             py_setdefault m1 ''stampData'' (stamp_data obj))
         else
           ebind (py_setdefault meta ''drawingType'' (JStr ''stroke'')) (\<lambda>m1.
           ebind (py_get m1 ''brushType'' (JStr default_brush)) (\<lambda>bt.
           ebind (py_setdefault m1 ''brushType'' bt) (\<lambda>m2.
           ebind (py_get m2 ''brushParams'' (JObj default_params)) (\<lambda>bp.
             py_setdefault m2 ''brushParams'' bp)))))
        (\<lambda>m. Inr (JObj (AList.update ''metadata'' m obj),
                  had_meta \<and>
                  (case m of JObj md \<Rightarrow> truthy (dict_get md ''brushType'' JNull) | _ \<Rightarrow> False))))"

fun process_loop :: "string \<Rightarrow> dict \<Rightarrow> json list \<Rightarrow> exn + json list \<times> bool" where
  "process_loop default_brush default_params [] = Inr ([], False)"
| "process_loop default_brush default_params (JObj obj # rest) =
     ebind (enrich default_brush default_params obj) (\<lambda>(obj', flag).
     ebind (process_loop default_brush default_params rest) (\<lambda>(processed, had_explicit).
       Inr (obj' # processed, flag \<or> had_explicit)))"
| "process_loop default_brush default_params (v # rest) =
     ebind (process_loop default_brush default_params rest) (\<lambda>(processed, had_explicit).
       Inr (v # processed, had_explicit))"

fun overlay_loop ::
  "(string \<Rightarrow> rat option) \<Rightarrow> dict \<Rightarrow> nat \<Rightarrow> json list \<Rightarrow> exn + json list" where
  "overlay_loop sf default_params idx [] = Inr []"
| "overlay_loop sf default_params idx (JObj obj # rest) =
     ebind (py_get (dict_get obj ''metadata'' (JObj [])) ''drawingType'' JNull) (\<lambda>dt.
       if dt = JStr ''image'' then overlay_loop sf default_params (Suc idx) rest
       else
         ebind (bbox_from_path sf (dict_get obj ''pathData'' (JObj []))) (\<lambda>b.
           case b of
             None \<Rightarrow> overlay_loop sf default_params (Suc idx) rest
           | Some bb \<Rightarrow>
               ebind (create_impasto_overlays obj bb default_params idx) (\<lambda>overlay_objs.
               ebind (overlay_loop sf default_params (Suc idx) rest) (\<lambda>more.
                 Inr (overlay_objs @ more)))))"
| "overlay_loop sf default_params idx (v # rest) = overlay_loop sf default_params (Suc idx) rest"

definition postprocess_style_objects ::
  "(string \<Rightarrow> rat option) \<Rightarrow> json \<Rightarrow> string \<Rightarrow> exn + json" where
  "postprocess_style_objects sf objects style_prompt =
     (case objects of
        JArr objs \<Rightarrow>
          (case map_style_to_brush style_prompt of (default_brush, default_params) \<Rightarrow>
             ebind (process_loop default_brush default_params objs) (\<lambda>(processed, had_explicit).
               if oil_style style_prompt \<and> \<not> had_explicit then
                 ebind (overlay_loop sf default_params 0 processed) (\<lambda>overlays.
                   Inr (JArr (processed @ overlays)))
               else Inr (JArr processed)))
      | _ \<Rightarrow> Inr objects)"

section \<open>Rule-based recognition\<close>

fun is_str :: "json \<Rightarrow> bool" where
  "is_str (JStr s) = True"
| "is_str _ = False"

text \<open>
  \<^verbatim>\<open>count_type(t)\<close>: the number of objects whose \<^verbatim>\<open>pathData\<close> is a dict of type \<open>t\<close>.
  \<^verbatim>\<open>o.get\<close> raises for an object that is not a dict.
\<close>

definition has_type :: "string \<Rightarrow> json \<Rightarrow> exn + bool" where
  "has_type t obj =
     ebind (py_get obj ''pathData'' JNull) (\<lambda>pd.
       if is_dict pd then
         ebind (py_get obj ''pathData'' (JObj [])) (\<lambda>pd'.
         ebind (py_get pd' ''type'' JNull) (\<lambda>ty. Inr (ty = JStr t)))
       else Inr False)"

fun count_type :: "string \<Rightarrow> json list \<Rightarrow> exn + nat" where
  "count_type t [] = Inr 0"
| "count_type t (obj # rest) =
     ebind (has_type t obj) (\<lambda>hit.
     ebind (count_type t rest) (\<lambda>n. Inr (if hit then Suc n else n)))"

definition is_text :: "json \<Rightarrow> exn + bool" where
  "is_text obj =
     ebind (py_get obj ''pathData'' (JObj [])) (\<lambda>pd.
     ebind (py_get pd ''type'' JNull) (\<lambda>ty.
       if ty = JStr ''text'' then ebind (py_get pd ''text'' JNull) (\<lambda>tx. Inr (is_str tx))
       else Inr False))"

definition is_triangle :: "json \<Rightarrow> exn + bool" where
  "is_triangle obj =
     ebind (py_get obj ''pathData'' (JObj [])) (\<lambda>pd.
     ebind (py_get pd ''points'' JNull) (\<lambda>p.
     ebind (if is_list p then py_get pd ''points'' JNull else Inr (JArr [])) (\<lambda>pts.
     ebind (py_get pd ''type'' JNull) (\<lambda>ty.
       Inr (ty = JStr ''polygon'' \<and> length (the_list pts) = 3)))))"

fun count_triangles :: "json list \<Rightarrow> exn + nat" where
  "count_triangles [] = Inr 0"
| "count_triangles (obj # rest) =
     ebind (is_triangle obj) (\<lambda>hit.
     ebind (count_triangles rest) (\<lambda>n. Inr (if hit then Suc n else n)))"

subsection \<open>Colours\<close>

text \<open>
  \<^verbatim>\<open>int(s, 16)\<close>: surrounding whitespace (tab to carriage return, space, and the
  Latin-1 characters 0x85 and 0xA0), a sign, a \<^verbatim>\<open>0x\<close> prefix, then hexadecimal
  digits with single underscores between them; \<open>None\<close> where the builtin raises
  \<^verbatim>\<open>ValueError\<close>.
\<close>

definition is_space :: "char \<Rightarrow> bool" where
  "is_space c = ((of_char c :: nat) \<in> set [9, 10, 11, 12, 13, 32, 133, 160])"

definition hex_val :: "char \<Rightarrow> int option" where
  "hex_val c =
     (let n = (of_char c :: nat) in
      if 48 \<le> n \<and> n \<le> 57 then Some (int n - 48)
      else if 97 \<le> n \<and> n \<le> 102 then Some (int n - 87)
      else if 65 \<le> n \<and> n \<le> 70 then Some (int n - 55)
      else None)"

fun digits16 :: "string \<Rightarrow> int \<Rightarrow> int option" where
  "digits16 [] acc = Some acc"
| "digits16 [c] acc = map_option (\<lambda>v. 16 * acc + v) (hex_val c)"
| "digits16 (c # d # ds) acc =
     (if c = CHR ''_'' then
        (case hex_val d of None \<Rightarrow> None | Some v \<Rightarrow> digits16 ds (16 * acc + v))
      else
        (case hex_val c of None \<Rightarrow> None | Some v \<Rightarrow> digits16 (d # ds) (16 * acc + v)))"

definition number16 :: "string \<Rightarrow> int option" where
  "number16 s =
     (case s of
        [] \<Rightarrow> None
      | c # cs \<Rightarrow> (case hex_val c of None \<Rightarrow> None | Some v \<Rightarrow> digits16 cs v))"

definition strip :: "string \<Rightarrow> string" where
  "strip s = rev (dropWhile is_space (rev (dropWhile is_space s)))"

definition skip_prefix16 :: "string \<Rightarrow> string" where
  "skip_prefix16 s =
     (case s of
        a # b # cs \<Rightarrow>
          if a = CHR ''0'' \<and> (b = CHR ''x'' \<or> b = CHR ''X'') then
            (case cs of c # ds \<Rightarrow> if c = CHR ''_'' then ds else cs | [] \<Rightarrow> cs)
          else s
      | _ \<Rightarrow> s)"

definition py_int16 :: "string \<Rightarrow> int option" where
  "py_int16 s =
     (case strip s of
        [] \<Rightarrow> None
      | c # cs \<Rightarrow>
          if c = CHR ''+'' then number16 (skip_prefix16 cs)
          else if c = CHR ''-'' then map_option uminus (number16 (skip_prefix16 cs))
          else number16 (skip_prefix16 (c # cs)))"

text \<open>\<^verbatim>\<open>hex_to_rgb\<close>: any exception inside gives black.\<close>

definition hex_to_rgb :: "json \<Rightarrow> int \<times> int \<times> int" where
  "hex_to_rgb h =
     (case h of
        JStr s \<Rightarrow>
          (let t = dropWhile (\<lambda>c. c = CHR ''#'') s in
           case py_int16 (take 2 t) of
             None \<Rightarrow> (0, 0, 0)
           | Some r \<Rightarrow>
               (case py_int16 (take 2 (drop 2 t)) of
                  None \<Rightarrow> (0, 0, 0)
                | Some g \<Rightarrow>
                    (case py_int16 (take 2 (drop 4 t)) of
                       None \<Rightarrow> (0, 0, 0)
                     | Some b \<Rightarrow> (r, g, b))))
      | _ \<Rightarrow> (0, 0, 0))"

definition color_close :: "json \<Rightarrow> int \<times> int \<times> int \<Rightarrow> int \<Rightarrow> bool" where
  "color_close hexcolor target_rgb tol =
     (case hex_to_rgb (py_or hexcolor (JStr ''#000000'')) of (r, g, b) \<Rightarrow>
      case target_rgb of (tr, tg, tb) \<Rightarrow>
        (r - tr)\<^sup>2 + (g - tg)\<^sup>2 + (b - tb)\<^sup>2 \<le> tol\<^sup>2)"

definition brown_rgb :: "int \<times> int \<times> int" where
  "brown_rgb = (139, 69, 19)"

definition green_rgb :: "int \<times> int \<times> int" where
  "green_rgb = (34, 139, 34)"

text \<open>
  \<^verbatim>\<open>any(o for o in canvas_objects if tool == "freehand" and color_close(...))\<close>:
  the generator is consumed up to the first object that passes the filter and is truthy.
\<close>

definition freehand_close :: "int \<times> int \<times> int \<Rightarrow> int \<Rightarrow> json \<Rightarrow> exn + bool" where
  "freehand_close target_rgb tol obj =
     ebind (py_get obj ''pathData'' (JObj [])) (\<lambda>pd.
     ebind (py_get pd ''tool'' JNull) (\<lambda>tool.
       if tool = JStr ''freehand'' then
         ebind (py_get obj ''color'' (JStr ''#000000'')) (\<lambda>c.
           Inr (color_close c target_rgb tol))
       else Inr False))"

fun any_freehand_close :: "int \<times> int \<times> int \<Rightarrow> int \<Rightarrow> json list \<Rightarrow> exn + bool" where
  "any_freehand_close target_rgb tol [] = Inr False"
| "any_freehand_close target_rgb tol (obj # rest) =
     ebind (freehand_close target_rgb tol obj) (\<lambda>hit.
       if hit \<and> truthy obj then Inr True else any_freehand_close target_rgb tol rest)"

subsection \<open>The rules\<close>

definition verdict :: "string \<Rightarrow> rat \<Rightarrow> string \<Rightarrow> json" where
  "verdict l c e = JObj [(''label'', JStr l), (''confidence'', JFloat c), (''explanation'', JStr e)]"

definition circle_verdict :: json where
  "circle_verdict =
     verdict ''circle'' (95 / 100) ''Single circular shape primitive within selection.''"

text \<open>
  The label of a text primitive, \<^verbatim>\<open>f"text: '{txt}'"\<close>. \<open>is_text\<close> has checked that
  \<open>txt\<close> is a string, the only case where the formatting is modelled.
\<close>

definition text_verdict :: "json \<Rightarrow> json" where
  "text_verdict txt =
     verdict (''text: '' @ [CHR 0x27] @ (case txt of JStr s \<Rightarrow> s | _ \<Rightarrow> []) @ [CHR 0x27])
       (98 / 100) ''A text primitive with an explicit string was found.''"

definition car_verdict :: json where
  "car_verdict =
     verdict ''car'' (9 / 10)
       ''Rectangular/polygonal body plus multiple circular wheel primitives.''"

definition house_verdict :: json where
  "house_verdict =
     verdict ''house'' (9 / 10) ''Rectangular base plus triangular roof polygon detected.''"

definition tree_verdict :: json where
  "tree_verdict =
     verdict ''tree'' (88 / 100)
       ''Brown trunk-like stroke plus clustered green freehand strokes resembling foliage.''"

fun text_loop :: "json list \<Rightarrow> exn + json option" where
  "text_loop [] = Inr None"
| "text_loop (obj # rest) =
     ebind (is_text obj) (\<lambda>hit.
       if hit then
         ebind (py_get obj ''pathData'' (JObj [])) (\<lambda>pd.
         ebind (py_get pd ''text'' (JStr [])) (\<lambda>txt. Inr (Some (text_verdict txt))))
       else text_loop rest)"

text \<open>The body of the \<^verbatim>\<open>try\<close> block of \<^verbatim>\<open>_rule_based_recognize\<close>.\<close>

definition recognize_rules :: "json list \<Rightarrow> exn + json option" where
  "recognize_rules canvas_objects =
     ebind (count_type ''circle'' canvas_objects) (\<lambda>circle_count.
       if circle_count = 1 \<and> length canvas_objects = 1 then Inr (Some circle_verdict)
       else
         ebind (text_loop canvas_objects) (\<lambda>found.
           case found of
             Some v \<Rightarrow> Inr (Some v)
           | None \<Rightarrow>
               ebind (count_type ''rectangle'' canvas_objects) (\<lambda>rect_count.
               ebind (count_type ''polygon'' canvas_objects) (\<lambda>poly_count.
                 if rect_count + poly_count \<ge> 1 \<and> circle_count \<ge> 2 then Inr (Some car_verdict)
                 else
                   ebind (count_triangles canvas_objects) (\<lambda>tri_count.
                     if rect_count \<ge> 1 \<and> tri_count \<ge> 1 then Inr (Some house_verdict)
                     else
                       ebind (any_freehand_close brown_rgb 120 canvas_objects) (\<lambda>trunk.
                       ebind (any_freehand_close green_rgb 120 canvas_objects) (\<lambda>foliage.
                         if trunk \<and> foliage then Inr (Some tree_verdict)
                         else Inr None)))))))"

text \<open>\<^verbatim>\<open>_rule_based_recognize\<close>: an exception in the rules gives no verdict.\<close>

definition rule_based_recognize :: "json list \<Rightarrow> json \<Rightarrow> json option" where
  "rule_based_recognize canvas_objects box =
     (case recognize_rules canvas_objects of Inl e \<Rightarrow> None | Inr r \<Rightarrow> r)"

section \<open>The two backends and the pipelines\<close>

text \<open>
  A backend call is everything a wrapper does inside its \<^verbatim>\<open>try\<close>: build the
  client, send the messages, read the reply and \<^verbatim>\<open>json.loads\<close> it. It is a parameter
  of the model: \<open>Inr j\<close> is the parsed reply, \<open>Inl detail\<close> an exception (transport
  failure, timeout, unparsable text) with its message. The message builders
  (\<^verbatim>\<open>_get_..._message\<close>) are parameters too; each pipeline function returns its
  result together with the calls it made, in order.
\<close>

datatype backend = OpenAI | Ollama

type_synonym 'm calls = "(backend \<times> 'm) list"

definition error_payload :: "string \<Rightarrow> string \<Rightarrow> json" where
  "error_payload err detail = JObj [(''error'', JStr err), (''detail'', JStr detail)]"

text \<open>What a wrapper returns for a call: the parsed reply, or the error payload.\<close>

definition attempt :: "string \<Rightarrow> string + json \<Rightarrow> json" where
  "attempt err r = (case r of Inl detail \<Rightarrow> error_payload err detail | Inr j \<Rightarrow> j)"

subsection \<open>Text to drawings\<close>




subsection \<open>Shape completion\<close>

definition openai_complete_shape ::
  "('m \<Rightarrow> string + json) \<Rightarrow> (dict \<Rightarrow> 'm) \<Rightarrow> dict \<Rightarrow> json \<times> 'm calls" where
  "openai_complete_shape openai msg canvas_state =
     (attempt ''openai_completion_failed'' (openai (msg canvas_state)),
      [(OpenAI, msg canvas_state)])"

definition ollama_complete_shape ::
  "('m \<Rightarrow> string + json) \<Rightarrow> (dict \<Rightarrow> 'm) \<Rightarrow> dict \<Rightarrow> json \<times> 'm calls" where
  "ollama_complete_shape ollama msg canvas_state =
     (attempt ''ollama_completion_failed'' (ollama (msg canvas_state)),
      [(Ollama, msg canvas_state)])"

definition complete_shape_from_canvas ::
  "('m \<Rightarrow> string + json) \<Rightarrow> ('m \<Rightarrow> string + json) \<Rightarrow> (dict \<Rightarrow> 'm) \<Rightarrow> dict \<Rightarrow>
   (exn + json) \<times> 'm calls" where
  "complete_shape_from_canvas openai ollama msg canvas_state =
     (case openai_complete_shape openai msg canvas_state of
        (model_output, calls1) \<Rightarrow>
          (case py_contains ''error'' model_output of
             Inl e \<Rightarrow> (Inl e, calls1)
           | Inr has_error \<Rightarrow>
               if \<not> has_error then (Inr model_output, calls1)
               else
                 (case ollama_complete_shape ollama msg canvas_state of
                    (fallback, calls2) \<Rightarrow> (Inr fallback, calls1 @ calls2))))"

subsection \<open>Beautification\<close>




definition rollback :: "dict \<Rightarrow> json" where
  "rollback canvas_state = JObj [(''objects'', dict_get canvas_state ''objects'' (JArr []))]"


subsection \<open>Style transfer\<close>

definition openai_style_transfer ::
  "('m \<Rightarrow> string + json) \<Rightarrow> (dict \<Rightarrow> string \<Rightarrow> 'm) \<Rightarrow> dict \<Rightarrow> string \<Rightarrow> json \<times> 'm calls" where
  "openai_style_transfer openai msg canvas_state style_prompt =
     (attempt ''openai_style_failed'' (openai (msg canvas_state style_prompt)),
      [(OpenAI, msg canvas_state style_prompt)])"

definition ollama_style_transfer ::
  "('m \<Rightarrow> string + json) \<Rightarrow> (dict \<Rightarrow> string \<Rightarrow> 'm) \<Rightarrow> dict \<Rightarrow> string \<Rightarrow> json \<times> 'm calls" where
  "ollama_style_transfer ollama msg canvas_state style_prompt =
     (attempt ''ollama_style_failed'' (ollama (msg canvas_state style_prompt)),
      [(Ollama, msg canvas_state style_prompt)])"

text \<open>
  \<^verbatim>\<open>isinstance(out, dict) and "error" not in out and "objects" in out\<close>: the dict
  when the test passes.
\<close>

definition styled_output :: "json \<Rightarrow> dict option" where
  "styled_output out =
     (case out of
        JObj d \<Rightarrow> if \<not> has_key d ''error'' \<and> has_key d ''objects'' then Some d else None
      | _ \<Rightarrow> None)"

text \<open>
  \<^verbatim>\<open>out["objects"] = _postprocess_style_objects(out.get("objects", []), style_prompt)\<close>,
  then \<^verbatim>\<open>return out\<close>.
\<close>

definition restyle :: "(string \<Rightarrow> rat option) \<Rightarrow> dict \<Rightarrow> string \<Rightarrow> exn + json" where
  "restyle sf d style_prompt =
     ebind (postprocess_style_objects sf (dict_get d ''objects'' (JArr [])) style_prompt)
       (\<lambda>objs. Inr (JObj (AList.update ''objects'' objs d)))"

definition style_transfer_canvas ::
  "(string \<Rightarrow> rat option) \<Rightarrow> ('m \<Rightarrow> string + json) \<Rightarrow> ('m \<Rightarrow> string + json) \<Rightarrow>
   (dict \<Rightarrow> string \<Rightarrow> 'm) \<Rightarrow> dict \<Rightarrow> string \<Rightarrow> (exn + json) \<times> 'm calls" where
  "style_transfer_canvas sf openai ollama msg canvas_state style_prompt =
     (case openai_style_transfer openai msg canvas_state style_prompt of
        (model_output, calls1) \<Rightarrow>
          (case styled_output model_output of
             Some d \<Rightarrow> (restyle sf d style_prompt, calls1)
           | None \<Rightarrow>
               (case ollama_style_transfer ollama msg canvas_state style_prompt of
                  (fallback_output, calls2) \<Rightarrow>
                    (case styled_output fallback_output of
                       Some d \<Rightarrow> (restyle sf d style_prompt, calls1 @ calls2)
                     | None \<Rightarrow> (Inr (rollback canvas_state), calls1 @ calls2)))))"

subsection \<open>Recognition\<close>




section \<open>Notions used in the statements\<close>

fun ok :: "exn + 'a \<Rightarrow> bool" where
  "ok (Inl e) = False"
| "ok (Inr x) = True"

text \<open>A string that \<^verbatim>\<open>float\<close> rejects whatever it is: the parameter of the closed examples.\<close>

definition reject_str :: "string \<Rightarrow> rat option" where
  "reject_str s = None"

subsection \<open>Bounding boxes\<close>

text \<open>A point both of whose coordinates (0 when absent) convert with \<^verbatim>\<open>float\<close>.\<close>

definition usable_point :: "(string \<Rightarrow> rat option) \<Rightarrow> json \<Rightarrow> bool" where
  "usable_point sf p = (ok (coord sf p ''x'') \<and> ok (coord sf p ''y''))"

text \<open>
  The geometry the extractor can use: a list under \<^verbatim>\<open>points\<close> decides alone, by one
  usable point in it; otherwise \<^verbatim>\<open>start\<close> and \<^verbatim>\<open>end\<close> must both be usable points.
\<close>

fun has_geometry :: "(string \<Rightarrow> rat option) \<Rightarrow> json \<Rightarrow> bool" where
  "has_geometry sf (JObj pd) =
     (if has_key pd ''points'' \<and> is_list (dict_get pd ''points'' JNull) then
        list_ex (usable_point sf) (the_list (dict_get pd ''points'' JNull))
      else
        is_dict (dict_get pd ''start'' JNull) \<and> is_dict (dict_get pd ''end'' JNull) \<and>
        usable_point sf (dict_get pd ''start'' JNull) \<and>
        usable_point sf (dict_get pd ''end'' JNull))"
| "has_geometry sf _ = False"

text \<open>
  The specification's condition, in its words: \<^verbatim>\<open>pathData\<close> has a non-empty point
  sequence or both \<^verbatim>\<open>start\<close> and \<^verbatim>\<open>end\<close>.
\<close>

definition spec_bbox_defined :: "json \<Rightarrow> bool" where
  "spec_bbox_defined v =
     (case v of
        JObj pd \<Rightarrow>
          (case map_of pd ''points'' of Some (JArr ps) \<Rightarrow> ps \<noteq> [] | _ \<Rightarrow> False) \<or>
          (has_key pd ''start'' \<and> has_key pd ''end'')
      | _ \<Rightarrow> False)"

subsection \<open>Recognition\<close>

text \<open>
  A freehand stroke whose colour is within \<open>tol\<close> of a target colour, read off the
  object without the exceptions of the code.
\<close>

definition stroke_near :: "int \<times> int \<times> int \<Rightarrow> int \<Rightarrow> json \<Rightarrow> bool" where
  "stroke_near target_rgb tol obj =
     (case obj of
        JObj d \<Rightarrow>
          (case dict_get d ''pathData'' (JObj []) of
             JObj pd \<Rightarrow>
               dict_get pd ''tool'' JNull = JStr ''freehand'' \<and>
               color_close (dict_get d ''color'' (JStr ''#000000'')) target_rgb tol
           | _ \<Rightarrow> False)
      | _ \<Rightarrow> False)"

text \<open>The condition under which the fifth rule of the code fires.\<close>

definition tree_like :: "json list \<Rightarrow> bool" where
  "tree_like objs =
     (list_ex (stroke_near brown_rgb 120) objs \<and> list_ex (stroke_near green_rgb 120) objs)"

text \<open>
  The specification's condition for the tree rule, in its words: a freehand stroke within
  100 of brown and a separate freehand stroke within 120 of green.
\<close>

definition spec_tree_rule :: "json list \<Rightarrow> bool" where
  "spec_tree_rule objs =
     list_ex (\<lambda>i. list_ex (\<lambda>j. i \<noteq> j \<and> stroke_near brown_rgb 100 (objs ! i) \<and>
                                  stroke_near green_rgb 120 (objs ! j))
                     [0..<length objs])
       [0..<length objs]"

text \<open>A freehand stroke of a given colour, for the closed examples.\<close>

definition stroke_obj :: "string \<Rightarrow> json" where
  "stroke_obj c =
     JObj [(''color'', JStr c), (''lineWidth'', JInt 2),
           (''pathData'',
              JObj [(''tool'', JStr ''freehand''), (''type'', JStr ''stroke''),
                    (''points'', JArr [JObj [(''x'', JInt 10), (''y'', JInt 10)],
                                       JObj [(''x'', JInt 20), (''y'', JInt 30)]])])]"

subsection \<open>Overlays\<close>

text \<open>The number a JSON value stands for in arithmetic (\<^verbatim>\<open>True\<close> is 1).\<close>

fun number_of :: "json \<Rightarrow> rat option" where
  "number_of (JInt i) = Some (of_int i)"
| "number_of (JFloat r) = Some r"
| "number_of (JBool b) = Some (if b then 1 else 0)"
| "number_of _ = None"



definition freehand_path :: "json list \<Rightarrow> json" where
  "freehand_path pts =
     JObj [(''tool'', JStr ''freehand''), (''type'', JStr ''stroke''), (''points'', JArr pts)]"

text \<open>
  The \<^verbatim>\<open>brushParams\<close> the overlay colour is read from, when \<^verbatim>\<open>metadata\<close> and
  \<^verbatim>\<open>brushParams\<close> are dicts (or absent), and the colour chosen: the first entry of a
  non-empty \<^verbatim>\<open>mixColors\<close> list, else the object's own colour.
\<close>

definition brush_params_of :: "dict \<Rightarrow> dict option" where
  "brush_params_of obj =
     (case dict_get obj ''metadata'' (JObj []) of
        JObj m \<Rightarrow> (case dict_get m ''brushParams'' (JObj []) of JObj bp \<Rightarrow> Some bp | _ \<Rightarrow> None)
      | _ \<Rightarrow> None)"

definition chosen_color :: "dict \<Rightarrow> dict \<Rightarrow> json" where
  "chosen_color obj bp =
     (case dict_get bp ''mixColors'' (JArr []) of
        JArr (c # cs) \<Rightarrow> c
      | _ \<Rightarrow> dict_get obj ''color'' (JStr ''#000000''))"



subsection \<open>Style post-processing\<close>

text \<open>
  \<open>setd\<close> is \<^verbatim>\<open>setdefault\<close> on a dict; \<open>old_meta\<close> is the value of
  \<^verbatim>\<open>obj.get("metadata", {}) or {}\<close>; \<open>fill\<close> is the metadata after the defaults
  have been set, when that value is a dict.
\<close>

definition setd :: "dict \<Rightarrow> string \<Rightarrow> json \<Rightarrow> dict" where
  "setd m k v = (if has_key m k then m else m @ [(k, v)])"

definition fill :: "string \<Rightarrow> dict \<Rightarrow> dict \<Rightarrow> dict \<Rightarrow> dict" where
  "fill default_brush default_params obj m =
     (if is_image_obj obj then
        setd (setd m ''drawingType'' (JStr ''image'')) ''stampData'' (stamp_data obj)
      else
        setd (setd (setd m ''drawingType'' (JStr ''stroke'')) ''brushType'' (JStr default_brush))
          ''brushParams'' (JObj default_params))"

definition old_meta :: "dict \<Rightarrow> json" where
  "old_meta obj = py_or (dict_get obj ''metadata'' (JObj [])) (JObj [])"

text \<open>A pass leaves \<open>v\<close> as it is and computes the flag \<open>f\<close> for it.\<close>

definition stable :: "string \<Rightarrow> dict \<Rightarrow> json \<Rightarrow> bool \<Rightarrow> bool" where
  "stable default_brush default_params v f =
     (case v of
        JObj d \<Rightarrow> enrich default_brush default_params d = Inr (JObj d, f)
      | _ \<Rightarrow> \<not> f)"

text \<open>
  Inputs on which post-processing cannot raise: \<^verbatim>\<open>metadata\<close> is absent, falsy or a
  dict whose \<^verbatim>\<open>brushParams\<close>, if any, is a dict, and \<^verbatim>\<open>lineWidth\<close> is absent or a
  number whose product with 1.3 is a finite double.
\<close>

definition width_ok :: "dict \<Rightarrow> bool" where
  "width_ok obj =
     (case number_of (dict_get obj ''lineWidth'' (JInt 2)) of
        Some w \<Rightarrow> \<bar>w * (13 / 10)\<bar> < float_max
      | None \<Rightarrow> False)"

definition meta_ok :: "dict \<Rightarrow> bool" where
  "meta_ok obj =
     (case old_meta obj of
        JObj m \<Rightarrow> is_dict (dict_get m ''brushParams'' (JObj []))
      | _ \<Rightarrow> False)"

definition well_formed :: "json \<Rightarrow> bool" where
  "well_formed v = (case v of JObj obj \<Rightarrow> meta_ok obj \<and> width_ok obj | _ \<Rightarrow> True)"

definition overlay_safe :: "json \<Rightarrow> bool" where
  "overlay_safe v =
     (case v of JObj obj \<Rightarrow> brush_params_of obj \<noteq> None \<and> width_ok obj | _ \<Rightarrow> True)"



subsection \<open>Pipelines\<close>

text \<open>A backend that answers every call with the same outcome.\<close>

definition replies :: "string + json \<Rightarrow> 'm \<Rightarrow> string + json" where
  "replies r m = r"

text \<open>
  A failed attempt where the pipeline tests only for \<^verbatim>\<open>error\<close>: the call raised, or
  the reply is a dict with an \<^verbatim>\<open>error\<close> key.
\<close>

definition failed :: "string + json \<Rightarrow> bool" where
  "failed r =
     (case r of Inl detail \<Rightarrow> True | Inr (JObj d) \<Rightarrow> has_key d ''error'' | Inr _ \<Rightarrow> False)"




text \<open>
  The specification's schema for \<^verbatim>\<open>complete\<close>, in its words: an \<^verbatim>\<open>object\<close>
  record with a boolean \<^verbatim>\<open>complete\<close> and a numeric \<^verbatim>\<open>confidence\<close>.
\<close>

definition spec_complete_valid :: "json \<Rightarrow> bool" where
  "spec_complete_valid v =
     (case v of
        JObj d \<Rightarrow>
          is_dict (dict_get d ''object'' JNull) \<and>
          (case dict_get d ''complete'' JNull of JBool b \<Rightarrow> True | _ \<Rightarrow> False) \<and>
          (case dict_get d ''confidence'' JNull of
             JInt i \<Rightarrow> True | JFloat r \<Rightarrow> True | _ \<Rightarrow> False)
      | _ \<Rightarrow> False)"

subsection \<open>Values of the closed examples\<close>

definition two_points :: json where
  "two_points =
     JObj [(''tool'', JStr ''freehand''), (''type'', JStr ''stroke''),
           (''points'', JArr [JObj [(''x'', JInt 0), (''y'', JInt 0)],
                              JObj [(''x'', JInt 100), (''y'', JInt 50)]])]"

definition plain_stroke :: json where
  "plain_stroke =
     JObj [(''color'', JStr ''#112233''), (''lineWidth'', JInt 3), (''pathData'', two_points)]"


definition labelled_stroke :: json where
  "labelled_stroke =
     JObj [(''color'', JStr ''#112233''), (''lineWidth'', JInt 3), (''pathData'', two_points),
           (''metadata'', JStr ''watercolor'')]"


definition canvas :: dict where
  "canvas =
     [(''bounds'', JObj [(''width'', JInt 800), (''height'', JInt 600)]),
      (''objects'', JArr [plain_stroke])]"



section \<open>Properties\<close>

lemmas eval_defs =
  styled_output_def has_key_def style_transfer_canvas_def openai_style_transfer_def
  ollama_style_transfer_def attempt_def replies_def restyle_def dict_get_def
  postprocess_style_objects_def map_style_to_brush_def oil_style_def lower_def lower_char_def
  sublist_code prefix_code Let_def ebind_def enrich_def py_or_def is_image_obj_def
  stamp_data_def create_impasto_overlays_def make_stroke_def overlay_color_def
  gather_def dict_item_def coord_def int_to_float_def float_max_def py_int_def py_trunc_def
  start_end_def rollback_def

lemma ok_iff: "ok r \<longleftrightarrow> (\<exists>x. r = Inr x)"
  by (cases r) auto

subsection \<open>Bounding-box extraction\<close>

lemma points_loop_len:
  "length ys \<le> length xs \<Longrightarrow>
   length (snd (points_loop sf ps (xs, ys))) \<le> length (fst (points_loop sf ps (xs, ys)))"
  by (induction ps arbitrary: xs ys) (auto split: sum.splits)

lemma points_loop_snd:
  "snd (points_loop sf ps (xs, ys)) = [] \<longleftrightarrow> ys = [] \<and> \<not> list_ex (usable_point sf) ps"
  by (induction ps arbitrary: xs ys) (auto simp: usable_point_def split: sum.splits)

lemma points_loop_empty:
  "points_loop sf ps ([], []) = (xs, ys) \<Longrightarrow>
   (xs = [] \<or> ys = []) \<longleftrightarrow> \<not> list_ex (usable_point sf) ps"
  using points_loop_len [of "[]" "[]" sf ps] points_loop_snd [of sf ps "[]" "[]"]
  by auto

lemma start_end_empty:
  "start_end sf pd = (xs, ys) \<Longrightarrow>
   (xs = [] \<or> ys = []) \<longleftrightarrow>
     \<not> (is_dict (dict_get pd ''start'' JNull) \<and> is_dict (dict_get pd ''end'' JNull) \<and>
        usable_point sf (dict_get pd ''start'' JNull) \<and>
        usable_point sf (dict_get pd ''end'' JNull))"
  by (auto simp: start_end_def Let_def usable_point_def ebind_def split: sum.splits if_splits)

lemma py_min_ok: "xs \<noteq> [] \<Longrightarrow> \<exists>m. py_min xs = Inr m"
  by (cases xs) auto

lemma py_max_ok: "xs \<noteq> [] \<Longrightarrow> \<exists>m. py_max xs = Inr m"
  by (cases xs) auto

lemma gather_ok:
  "\<exists>xs ys. gather sf pd = Inr (xs, ys) \<and>
     ((xs = [] \<or> ys = []) \<longleftrightarrow> \<not> has_geometry sf (JObj pd))"
proof (cases "has_key pd ''points'' \<and> is_list (dict_get pd ''points'' JNull)")
  case True
  then obtain v where v: "map_of pd ''points'' = Some v"
    by (auto simp: has_key_def)
  obtain xs ys where l: "points_loop sf (the_list v) ([], []) = (xs, ys)"
    by (cases "points_loop sf (the_list v) ([], [])") auto
  from True v l have "gather sf pd = Inr (xs, ys)"
    by (simp add: gather_def dict_item_def ebind_def)
  moreover from True v points_loop_empty [OF l]
  have "(xs = [] \<or> ys = []) \<longleftrightarrow> \<not> has_geometry sf (JObj pd)"
    by (simp add: dict_get_def)
  ultimately show ?thesis by blast
next
  case False
  obtain xs ys where l: "start_end sf pd = (xs, ys)"
    by (cases "start_end sf pd") auto
  from False l have "gather sf pd = Inr (xs, ys)"
    unfolding gather_def by (simp only: if_False)
  moreover from False start_end_empty [OF l]
  have "(xs = [] \<or> ys = []) \<longleftrightarrow> \<not> has_geometry sf (JObj pd)"
    by auto
  ultimately show ?thesis by blast
qed

text \<open>
  C5, as the code has it. \<^verbatim>\<open>_bbox_from_path\<close> never raises, and it returns a box
  exactly when \<^verbatim>\<open>pathData\<close> is a dict with usable geometry: when \<^verbatim>\<open>points\<close> is a
  list, one of its entries must be a dict whose \<open>x\<close> and \<open>y\<close> both convert with
  \<^verbatim>\<open>float\<close> (\<^verbatim>\<open>start\<close> and \<^verbatim>\<open>end\<close> are then not consulted); otherwise \<^verbatim>\<open>start\<close> and
  \<^verbatim>\<open>end\<close> must both be dicts whose coordinates convert.
\<close>

theorem bbox_from_path_defined:
  "\<exists>r. bbox_from_path sf v = Inr r \<and> (r \<noteq> None \<longleftrightarrow> has_geometry sf v)"
proof (cases v)
  case (JObj pd)
  from gather_ok [of sf pd] obtain xs ys where
    g: "gather sf pd = Inr (xs, ys)" and
    e: "(xs = [] \<or> ys = []) \<longleftrightarrow> \<not> has_geometry sf (JObj pd)"
    by blast
  show ?thesis
  proof (cases "xs = [] \<or> ys = []")
    case True
    with g e JObj show ?thesis by (simp add: ebind_def)
  next
    case False
    then obtain a b c d where "py_min xs = Inr a" "py_max xs = Inr b"
      "py_min ys = Inr c" "py_max ys = Inr d"
      using py_min_ok py_max_ok by (metis (full_types))
    with g e JObj False show ?thesis by (simp add: ebind_def)
  qed
qed simp_all

text \<open>
  The theorem at a line from (0, 0) to (10, 5/2): the box is returned.
\<close>

theorem bbox_from_path_defined_witness:
  "has_geometry reject_str
     (JObj [(''start'', JObj [(''x'', JInt 0), (''y'', JInt 0)]),
            (''end'', JObj [(''x'', JInt 10), (''y'', JFloat (5 / 2))])]) \<and>
   (\<exists>b. bbox_from_path reject_str
     (JObj [(''start'', JObj [(''x'', JInt 0), (''y'', JInt 0)]),
            (''end'', JObj [(''x'', JInt 10), (''y'', JFloat (5 / 2))])]) = Inr (Some b))"
proof -
  have h: "has_geometry reject_str
     (JObj [(''start'', JObj [(''x'', JInt 0), (''y'', JInt 0)]),
            (''end'', JObj [(''x'', JInt 10), (''y'', JFloat (5 / 2))])])"
    by (simp add: has_key_def dict_get_def usable_point_def coord_def ebind_def
        int_to_float_def float_max_def)
  with bbox_from_path_defined [of reject_str
     "JObj [(''start'', JObj [(''x'', JInt 0), (''y'', JInt 0)]),
            (''end'', JObj [(''x'', JInt 10), (''y'', JFloat (5 / 2))])]"]
  show ?thesis by auto
qed

text \<open>
  C5 as stated fails: a \<^verbatim>\<open>pathData\<close> with an empty \<^verbatim>\<open>points\<close> list next to a
  \<^verbatim>\<open>start\<close> and an \<^verbatim>\<open>end\<close> has both end points, and the extractor returns none,
  because the list under \<^verbatim>\<open>points\<close> is the only geometry it reads.
\<close>

theorem bbox_from_path_empty_points_counterexample:
  "spec_bbox_defined
     (JObj [(''points'', JArr []),
            (''start'', JObj [(''x'', JInt 0), (''y'', JInt 0)]),
            (''end'', JObj [(''x'', JInt 10), (''y'', JInt 10)])]) \<and>
   bbox_from_path reject_str
     (JObj [(''points'', JArr []),
            (''start'', JObj [(''x'', JInt 0), (''y'', JInt 0)]),
            (''end'', JObj [(''x'', JInt 10), (''y'', JInt 10)])]) = Inr None"
  by (simp add: spec_bbox_defined_def has_key_def gather_def dict_get_def dict_item_def
      ebind_def)

lemma bbox_total: "\<exists>r. bbox_from_path sf v = Inr r"
proof (cases v)
  case (JObj pd)
  from gather_ok [of sf pd] obtain xs ys where g: "gather sf pd = Inr (xs, ys)"
    by blast
  show ?thesis
  proof (cases "xs = [] \<or> ys = []")
    case True
    with g JObj show ?thesis by (simp add: ebind_def)
  next
    case False
    then obtain a b c d where "py_min xs = Inr a" "py_max xs = Inr b"
      "py_min ys = Inr c" "py_max ys = Inr d"
      using py_min_ok py_max_ok by (metis (full_types))
    with g JObj False show ?thesis by (simp add: ebind_def)
  qed
qed simp_all

subsection \<open>The rule-based recognizer\<close>

text \<open>
  C10. \<^verbatim>\<open>_rule_based_recognize\<close> never reads its \<^verbatim>\<open>box\<close> argument: the verdict is
  the same for any two selection boxes.
\<close>

theorem rule_based_recognize_ignores_box:
  "rule_based_recognize canvas_objects b1 = rule_based_recognize canvas_objects b2"
  by (simp add: rule_based_recognize_def)

lemma is_text_False:
  "is_text obj = Inr False \<Longrightarrow>
   \<exists>d pd. obj = JObj d \<and> dict_get d ''pathData'' (JObj []) = JObj pd"
  by (cases obj; cases "dict_get (case obj of JObj d \<Rightarrow> d) ''pathData'' (JObj [])")
     (auto simp: is_text_def ebind_def)

lemma text_loop_None:
  "text_loop objs = Inr None \<Longrightarrow>
   \<forall>obj \<in> set objs. \<exists>d pd. obj = JObj d \<and> dict_get d ''pathData'' (JObj []) = JObj pd"
proof (induction objs)
  case (Cons obj rest)
  from Cons.prems obtain hit where h: "is_text obj = Inr hit"
    by (cases "is_text obj") (auto simp: ebind_def)
  with Cons.prems have "\<not> hit"
    by (auto simp: ebind_def split: sum.splits)
  with h Cons show ?case
    by (auto simp: ebind_def dest: is_text_False)
qed simp

lemma freehand_close_wf:
  "obj = JObj d \<Longrightarrow> dict_get d ''pathData'' (JObj []) = JObj pd \<Longrightarrow>
   freehand_close target tol obj = Inr (stroke_near target tol obj)"
  by (simp add: freehand_close_def stroke_near_def ebind_def)

lemma stroke_near_truthy: "stroke_near target tol obj \<Longrightarrow> truthy obj"
  by (auto simp: stroke_near_def dict_get_def split: json.splits option.splits)

lemma any_freehand_close_wf:
  "\<forall>obj \<in> set objs. \<exists>d pd. obj = JObj d \<and> dict_get d ''pathData'' (JObj []) = JObj pd \<Longrightarrow>
   any_freehand_close target tol objs = Inr (list_ex (stroke_near target tol) objs)"
proof (induction objs)
  case (Cons obj rest)
  then obtain d pd where "obj = JObj d" "dict_get d ''pathData'' (JObj []) = JObj pd"
    by auto
  then have "freehand_close target tol obj = Inr (stroke_near target tol obj)"
    by (rule freehand_close_wf)
  with Cons show ?case
    using stroke_near_truthy [of target tol obj] by (auto simp: ebind_def)
qed simp

text \<open>
  C4, as the code has it. When the first four rules ran without a match (the counts were
  computed, no text primitive was found, and neither the circle, the car nor the house rule
  applied), the recognizer answers \<open>tree\<close> with confidence 0.88 exactly when some freehand
  stroke is within Euclidean RGB distance 120 of brown (139, 69, 19) and some freehand
  stroke, possibly the same one, is within 120 of green (34, 139, 34); otherwise it gives
  no verdict.
\<close>

theorem tree_rule:
  assumes "count_type ''circle'' objs = Inr circle_count"
    and "\<not> (circle_count = 1 \<and> length objs = 1)"
    and "text_loop objs = Inr None"
    and "count_type ''rectangle'' objs = Inr rect_count"
    and "count_type ''polygon'' objs = Inr poly_count"
    and "\<not> (rect_count + poly_count \<ge> 1 \<and> circle_count \<ge> 2)"
    and "count_triangles objs = Inr tri_count"
    and "\<not> (rect_count \<ge> 1 \<and> tri_count \<ge> 1)"
  shows "rule_based_recognize objs box = (if tree_like objs then Some tree_verdict else None)"
proof -
  from assms(3) have wf:
    "\<forall>obj \<in> set objs. \<exists>d pd. obj = JObj d \<and> dict_get d ''pathData'' (JObj []) = JObj pd"
    by (rule text_loop_None)
  have a: "any_freehand_close brown_rgb 120 objs = Inr (list_ex (stroke_near brown_rgb 120) objs)"
    and b: "any_freehand_close green_rgb 120 objs = Inr (list_ex (stroke_near green_rgb 120) objs)"
    using wf by (rule any_freehand_close_wf)+
  have "recognize_rules objs =
          Inr (if tree_like objs then Some tree_verdict else None)"
    unfolding recognize_rules_def tree_like_def
    by (simp only: assms(1,3,4,5,7) a b ebind_def sum.case option.case
          if_not_P [OF assms(2)] if_not_P [OF assms(6)] if_not_P [OF assms(8)])
       simp
  then show ?thesis
    by (simp add: rule_based_recognize_def)
qed

text \<open>
  The theorem at a brown and a green stroke: no earlier rule matches, and the verdict is
  \<open>tree\<close>.
\<close>

theorem tree_rule_witness:
  "rule_based_recognize [stroke_obj ''#8B4513'', stroke_obj ''#228B22''] (JObj []) = Some tree_verdict"
proof -
  have 1: "count_type ''circle'' [stroke_obj ''#8B4513'', stroke_obj ''#228B22''] = Inr 0"
    by code_simp
  have 2: "\<not> ((0::nat) = 1 \<and> length [stroke_obj ''#8B4513'', stroke_obj ''#228B22''] = 1)"
    by simp
  have 3: "text_loop [stroke_obj ''#8B4513'', stroke_obj ''#228B22''] = Inr None"
    by code_simp
  have 4: "count_type ''rectangle'' [stroke_obj ''#8B4513'', stroke_obj ''#228B22''] = Inr 0"
    by code_simp
  have 5: "count_type ''polygon'' [stroke_obj ''#8B4513'', stroke_obj ''#228B22''] = Inr 0"
    by code_simp
  have 6: "\<not> ((0::nat) + 0 \<ge> 1 \<and> (0::nat) \<ge> 2)"
    by simp
  have 7: "count_triangles [stroke_obj ''#8B4513'', stroke_obj ''#228B22''] = Inr 0"
    by code_simp
  have 8: "\<not> ((0::nat) \<ge> 1 \<and> (0::nat) \<ge> 1)"
    by simp
  have 9: "tree_like [stroke_obj ''#8B4513'', stroke_obj ''#228B22'']"
    by code_simp
  from tree_rule [OF 1 2 3 4 5 6 7 8, of "JObj []"] 9 show ?thesis by simp
qed

text \<open>
  C4 as stated fails: a single freehand stroke of colour \<^verbatim>\<open>#308220\<close>, that is
  (48, 130, 32), is 110.3 from brown and 16.8 from green. No stroke is within 100 of brown
  and there is no second stroke, yet the code answers \<open>tree\<close>: both of its tests use the
  tolerance 120 and neither asks for distinct strokes.
\<close>

theorem single_stroke_tree_counterexample:
  "rule_based_recognize [stroke_obj ''#308220''] (JObj []) = Some tree_verdict \<and>
   \<not> spec_tree_rule [stroke_obj ''#308220'']"
  by code_simp

subsection \<open>Overlay synthesis\<close>


lemma overlay_color_ok:
  "brush_params_of obj = Some bp \<Longrightarrow> overlay_color obj = Inr (chosen_color obj bp)"
  by (auto simp: brush_params_of_def overlay_color_def chosen_color_def ebind_def
      split: json.splits)

lemma mul_float_ok:
  "number_of v = Some w \<Longrightarrow> \<bar>w\<bar> < float_max \<Longrightarrow> mul_float v m = Inr (w * m)"
  by (cases v) (auto simp: ebind_def int_to_float_def)

lemma make_stroke_ok:
  assumes "number_of (dict_get obj ''lineWidth'' (JInt 2)) = Some w"
    and "\<bar>w\<bar> < float_max" and "\<bar>w * m\<bar> < float_max"
  shows "make_stroke obj bb dp color offs rel m =
     Inr (JObj
       [(''color'', color),
        (''lineWidth'', JInt (max 2 (py_trunc (w * m)))),
        (''pathData'',
           freehand_path (map (\<lambda>(rx, ry).
              JObj [(''x'', JFloat ((min_x bb + max_x bb) / 2 + rx * (max_x bb - min_x bb) + of_int offs)),
                    (''y'', JFloat ((min_y bb + max_y bb) / 2 + ry * (max_y bb - min_y bb) + of_int offs))]) rel)),
        (''metadata'',
           JObj [(''drawingType'', JStr ''stroke''),
                 (''brushType'', dict_get dp ''base'' (JStr ''wacky'')),
                 (''brushParams'',
                    JObj (AList.update ''opacity'' (dict_get dp ''opacity'' (JFloat (9 / 10))) dp))])])"
  using assms
  by (simp add: make_stroke_def Let_def mul_float_ok ebind_def py_int_def freehand_path_def)




lemma create_impasto_overlays_ok:
  assumes "brush_params_of obj \<noteq> None" "width_ok obj"
  shows "\<exists>ovs. create_impasto_overlays obj bb dp idx = Inr ovs"
proof -
  from assms(1) obtain bp where bp: "brush_params_of obj = Some bp"
    by auto
  from assms(2) obtain w where w: "number_of (dict_get obj ''lineWidth'' (JInt 2)) = Some w"
    "\<bar>w * (13 / 10)\<bar> < float_max"
    by (auto simp: width_ok_def split: option.splits)
  from w(2) have w1: "\<bar>w\<bar> < float_max" "\<bar>w * 1\<bar> < float_max"
    by (auto simp: abs_mult)
  show ?thesis
    unfolding create_impasto_overlays_def
    by (simp add: overlay_color_ok [OF bp] ebind_def Let_def
        make_stroke_ok [OF w(1) w1(1) w1(2)] make_stroke_ok [OF w(1) w1(1) w(2)])
qed

subsection \<open>Style post-processing\<close>

lemma has_key_append [simp]: "has_key (m @ [(k, v)]) k' \<longleftrightarrow> has_key m k' \<or> k' = k"
  by (auto simp: has_key_def map_add_def split: option.splits)

lemma has_key_setd [simp]: "has_key (setd m k v) k' \<longleftrightarrow> has_key m k' \<or> k' = k"
  by (auto simp: setd_def)

lemma dict_get_setd_present: "has_key m k \<Longrightarrow> dict_get (setd m k' v) k dflt = dict_get m k dflt"
  by (auto simp: setd_def dict_get_def has_key_def map_add_def split: option.splits)

lemma dict_get_setd_new: "\<not> has_key m k \<Longrightarrow> dict_get (setd m k v) k dflt = v"
  by (auto simp: setd_def dict_get_def has_key_def map_add_def split: option.splits)

lemma dict_get_absent: "\<not> has_key m k \<Longrightarrow> dict_get m k dflt = dflt"
  by (auto simp: dict_get_def has_key_def)

lemma py_setdefault_setd: "py_setdefault (JObj m) k v = Inr (JObj (setd m k v))"
  by (simp add: setd_def)

lemma setd_default_get:
  "setd m k (dict_get m k v) = setd m k v"
  by (auto simp: setd_def dict_get_absent)

lemma enrich_dict:
  assumes "old_meta obj = JObj m"
  shows "enrich default_brush default_params obj =
     Inr (JObj (AList.update ''metadata'' (JObj (fill default_brush default_params obj m)) obj),
          has_key obj ''metadata'' \<and>
          truthy (dict_get (fill default_brush default_params obj m) ''brushType'' JNull))"
  using assms
  by (simp add: enrich_def old_meta_def Let_def ebind_def py_setdefault_setd fill_def
      setd_default_get del: py_setdefault.simps)

lemma enrich_nondict:
  assumes "\<not> is_dict (old_meta obj)"
  shows "enrich default_brush default_params obj = Inl AttributeError"
  using assms
  by (cases "old_meta obj") (auto simp: enrich_def old_meta_def Let_def ebind_def)

lemma setd_present: "has_key m k \<Longrightarrow> setd m k v = m"
  by (simp add: setd_def)

lemma has_key_update [simp]: "has_key (AList.update k v d) k' \<longleftrightarrow> has_key d k' \<or> k' = k"
  by (auto simp: has_key_def update_conv')

lemma dict_get_update_same [simp]: "dict_get (AList.update k v d) k dflt = v"
  by (simp add: dict_get_def update_conv')

lemma dict_get_update_other [simp]:
  "k' \<noteq> k \<Longrightarrow> dict_get (AList.update k v d) k' dflt = dict_get d k' dflt"
  by (simp add: dict_get_def update_conv')

lemma is_image_obj_update [simp]:
  "is_image_obj (AList.update ''metadata'' v d) = is_image_obj d"
  by (simp add: is_image_obj_def)

lemma stamp_data_update [simp]:
  "stamp_data (AList.update ''metadata'' v d) = stamp_data d"
  by (simp add: stamp_data_def)

lemma fill_has_drawingType [simp]: "has_key (fill b p d m) ''drawingType''"
  by (simp add: fill_def)

lemma fill_nonempty [simp]: "fill b p d m \<noteq> []"
proof
  assume "fill b p d m = []"
  with fill_has_drawingType [of b p d m] show False
    by (simp add: has_key_def)
qed

lemma fill_fill: "is_image_obj d' = is_image_obj d \<Longrightarrow> stamp_data d' = stamp_data d \<Longrightarrow>
  fill b p d' (fill b p d m) = fill b p d m"
  by (simp add: fill_def setd_present)

lemma old_meta_update [simp]:
  "old_meta (AList.update ''metadata'' (JObj (fill b p d m)) d') = JObj (fill b p d m)"
  by (simp add: old_meta_def py_or_def)

lemma enrich_stable:
  assumes "enrich b p d = Inr (v, f)"
  shows "\<exists>f'. stable b p v f' \<and> (f \<longrightarrow> f')"
proof (cases "old_meta d")
  case (JObj m)
  let ?m' = "fill b p d m"
  let ?d' = "AList.update ''metadata'' (JObj ?m') d"
  from assms enrich_dict [OF JObj, of b p]
  have v: "v = JObj ?d'" and f: "f = (has_key d ''metadata'' \<and> truthy (dict_get ?m' ''brushType'' JNull))"
    by simp_all
  have "enrich b p ?d' = Inr (JObj ?d', truthy (dict_get ?m' ''brushType'' JNull))"
    using enrich_dict [of ?d' ?m' b p] by (simp add: fill_fill)
  with v f show ?thesis
    by (auto simp: stable_def)
next
qed (use assms enrich_nondict [of d b p] in auto)

lemma process_loop_stable:
  "list_all2 (stable b p) ys fs \<Longrightarrow> process_loop b p ys = Inr (ys, True \<in> set fs)"
proof (induction ys fs rule: list_all2_induct)
  case Nil
  then show ?case by simp
next
  case (Cons y f ys fs)
  then show ?case
    by (cases y) (auto simp: stable_def ebind_def)
qed

lemma process_loop_result:
  "process_loop b p objs = Inr (ys, f) \<Longrightarrow>
   \<exists>fs. list_all2 (stable b p) ys fs \<and> (f \<longrightarrow> True \<in> set fs)"
proof (induction objs arbitrary: ys f)
  case Nil
  then show ?case by simp
next
  case (Cons v objs)
  from Cons.prems obtain ys' f' where r: "process_loop b p objs = Inr (ys', f')"
    by (cases v; cases "process_loop b p objs")
       (auto simp: ebind_def split: sum.splits prod.splits)
  from Cons.IH [OF r] obtain fs where fs: "list_all2 (stable b p) ys' fs" "f' \<longrightarrow> True \<in> set fs"
    by blast
  show ?case
  proof (cases "is_dict v")
    case True
    then obtain d where JObj: "v = JObj d"
      by (cases v) auto
    with Cons.prems r obtain v' g where e: "enrich b p d = Inr (v', g)"
      and ys: "ys = v' # ys'" and f: "f = (g \<or> f')"
      by (cases "enrich b p d") (auto simp: ebind_def)
    from enrich_stable [OF e] obtain g' where "stable b p v' g'" "g \<longrightarrow> g'"
      by blast
    with fs ys f have "list_all2 (stable b p) ys (g' # fs) \<and> (f \<longrightarrow> True \<in> set (g' # fs))"
      by auto
    then show ?thesis by blast
  next
    case False
    then have sv: "stable b p v False"
      by (cases v) (auto simp: stable_def)
    from False Cons.prems r have "ys = v # ys'" "f = f'"
      by (cases v; auto simp: ebind_def)+
    with fs sv have "list_all2 (stable b p) ys (False # fs) \<and> (f \<longrightarrow> True \<in> set (False # fs))"
      by auto
    then show ?thesis by blast
  qed
qed

lemma base_truthy: "truthy (dict_get (snd (map_style_to_brush sp)) ''base'' (JStr ''wacky''))"
  unfolding map_style_to_brush_def Let_def
  by (simp only: if_distrib [of snd] if_distrib [of "\<lambda>d. dict_get d ''base'' (JStr ''wacky'')"]
        if_distrib [of truthy] snd_conv) (simp add: dict_get_def)

lemma make_stroke_stable:
  assumes "make_stroke obj bb dp color offs rel m = Inr v"
    and "truthy (dict_get dp ''base'' (JStr ''wacky''))"
  shows "stable b dp v True"
proof -
  from assms(1) obtain n where v: "v = JObj
          [(''color'', color),
           (''lineWidth'', JInt (max 2 n)),
           (''pathData'',
              JObj [(''tool'', JStr ''freehand''), (''type'', JStr ''stroke''),
                    (''points'', JArr (map (\<lambda>(rx, ry).
                  JObj [(''x'', JFloat ((min_x bb + max_x bb) / 2 + rx * (max_x bb - min_x bb) + of_int offs)),
                        (''y'', JFloat ((min_y bb + max_y bb) / 2 + ry * (max_y bb - min_y bb) + of_int offs))]) rel))]),
           (''metadata'',
              JObj [(''drawingType'', JStr ''stroke''),
                    (''brushType'', dict_get dp ''base'' (JStr ''wacky'')),
                    (''brushParams'',
                       JObj (AList.update ''opacity''
                               (dict_get dp ''opacity'' (JFloat (9 / 10)))
                               dp))])]"
    by (auto simp: make_stroke_def Let_def ebind_def split: sum.splits)
  show ?thesis
    unfolding v stable_def
    using assms(2)
    by (simp add: enrich_def Let_def ebind_def has_key_def dict_get_def py_or_def
        is_image_obj_def)
qed

lemma create_impasto_overlays_stable:
  assumes "create_impasto_overlays obj bb dp idx = Inr ovs"
    and "truthy (dict_get dp ''base'' (JStr ''wacky''))"
  shows "\<forall>v \<in> set ovs. stable b dp v True"
  using assms
  by (auto simp: create_impasto_overlays_def ebind_def Let_def split: sum.splits
      dest: make_stroke_stable)

lemma overlay_loop_stable:
  assumes "truthy (dict_get dp ''base'' (JStr ''wacky''))"
  shows "overlay_loop sf dp idx objs = Inr ovs \<Longrightarrow> \<forall>v \<in> set ovs. stable b dp v True"
proof (induction objs arbitrary: idx ovs)
  case Nil
  then show ?case by simp
next
  case (Cons v rest)
  show ?case
  proof (cases "is_dict v")
    case False
    with Cons.prems have "overlay_loop sf dp (Suc idx) rest = Inr ovs"
      by (cases v) auto
    then show ?thesis by (rule Cons.IH)
  next
    case True
    then obtain obj where v: "v = JObj obj"
      by (cases v) auto
    from Cons.prems v obtain dt where dt:
      "py_get (dict_get obj ''metadata'' (JObj [])) ''drawingType'' JNull = Inr dt"
      by (auto simp: ebind_def split: sum.splits)
    show ?thesis
    proof (cases "dt = JStr ''image''")
      case True
      with Cons.prems v dt have "overlay_loop sf dp (Suc idx) rest = Inr ovs"
        by (simp add: ebind_def)
      then show ?thesis by (rule Cons.IH)
    next
      case False
      from Cons.prems v dt False obtain bo where bo:
        "bbox_from_path sf (dict_get obj ''pathData'' (JObj [])) = Inr bo"
        by (auto simp: ebind_def split: sum.splits)
      show ?thesis
      proof (cases bo)
        case None
        with Cons.prems v dt False bo have "overlay_loop sf dp (Suc idx) rest = Inr ovs"
          by (simp add: ebind_def)
        then show ?thesis by (rule Cons.IH)
      next
        case (Some bb)
        from Cons.prems v dt False bo Some obtain o1 more where
          o1: "create_impasto_overlays obj bb dp idx = Inr o1" and
          more: "overlay_loop sf dp (Suc idx) rest = Inr more" and
          ovs: "ovs = o1 @ more"
          by (auto simp: ebind_def split: sum.splits)
        from Cons.IH [OF more] create_impasto_overlays_stable [OF o1 assms, of b] ovs
        show ?thesis by auto
      qed
    qed
  qed
qed

lemma stable_True_flags:
  "\<forall>v \<in> set ovs. stable b p v True \<Longrightarrow> list_all2 (stable b p) ovs (replicate (length ovs) True)"
  by (induction ovs) auto

lemma postprocess_list:
  "map_style_to_brush sp = (b, p) \<Longrightarrow>
   postprocess_style_objects sf (JArr objs) sp =
     ebind (process_loop b p objs)
       (\<lambda>(processed, had_explicit).
          if oil_style sp \<and> \<not> had_explicit then
            ebind (overlay_loop sf p 0 processed) (\<lambda>overlays.
              Inr (JArr (processed @ overlays)))
          else Inr (JArr processed))"
  by (simp add: postprocess_style_objects_def)

lemma postprocess_not_list:
  "\<not> is_list v \<Longrightarrow> postprocess_style_objects sf v sp = Inr v"
  by (cases v) (auto simp: postprocess_style_objects_def)

text \<open>
  C9. Whatever the objects and the style prompt, a second pass of
  \<^verbatim>\<open>_postprocess_style_objects\<close> over the output of a first pass returns that output
  unchanged: every object carries its metadata by then, and no overlay is added.
\<close>

theorem postprocess_second_pass:
  assumes "postprocess_style_objects sf objects sp = Inr out"
  shows "postprocess_style_objects sf out sp = Inr out"
proof (cases "is_list objects")
  case False
  with assms postprocess_not_list [of objects sf sp] show ?thesis
    by simp
next
  case True
  then obtain objs where objects: "objects = JArr objs"
    by (cases objects) auto
  define b where "b = fst (map_style_to_brush sp)"
  define p where "p = snd (map_style_to_brush sp)"
  have base: "truthy (dict_get p ''base'' (JStr ''wacky''))"
    unfolding p_def by (rule base_truthy)
  have "map_style_to_brush sp = (b, p)"
    by (simp add: b_def p_def)
  note pp = postprocess_list [OF this]
  from assms objects have "postprocess_style_objects sf (JArr objs) sp = Inr out"
    by simp
  note post = this [unfolded pp]
  from post obtain processed f where
    pl: "process_loop b p objs = Inr (processed, f)"
    by (cases "process_loop b p objs") (auto simp: ebind_def)
  from process_loop_result [OF pl] obtain fs where
    fs: "list_all2 (stable b p) processed fs" "f \<longrightarrow> True \<in> set fs"
    by blast
  have again: "process_loop b p processed = Inr (processed, True \<in> set fs)"
    using fs(1) by (rule process_loop_stable)
  show ?thesis
  proof (cases "oil_style sp \<and> \<not> f")
    case False
    with post pl have out: "out = JArr processed"
      by (auto simp: ebind_def)
    from False fs(2) have "\<not> (oil_style sp \<and> \<not> True \<in> set fs)"
      by auto
    with again show ?thesis
      by (auto simp: out pp ebind_def)
  next
    case True
    with post pl obtain ovs where
      ol: "overlay_loop sf p 0 processed = Inr ovs" and out: "out = JArr (processed @ ovs)"
      by (cases "overlay_loop sf p 0 processed") (auto simp: ebind_def)
    show ?thesis
    proof (cases "ovs = []")
      case True
      with ol again show ?thesis
        by (auto simp: out pp ebind_def)
    next
      case False
      from overlay_loop_stable [OF base ol, of b]
      have "list_all2 (stable b p) ovs (replicate (length ovs) True)"
        by (rule stable_True_flags)
      with fs(1) have "list_all2 (stable b p) (processed @ ovs) (fs @ replicate (length ovs) True)"
        by (rule list_all2_appendI)
      then have "process_loop b p (processed @ ovs) =
          Inr (processed @ ovs, True \<in> set (fs @ replicate (length ovs) True))"
        by (rule process_loop_stable)
      moreover from False have "True \<in> set (fs @ replicate (length ovs) True)"
        by auto
      ultimately show ?thesis
        by (simp add: out pp ebind_def)
    qed
  qed
qed

text \<open>
  The theorem at one unstyled stroke under \<^verbatim>\<open>Van Gogh oil painting\<close>: the first pass
  returns (the stroke and two overlays), and the second pass returns the same list.
\<close>

lemma post_plain_oil_ok:
  "ok (postprocess_style_objects reject_str (JArr [plain_stroke]) ''Van Gogh oil painting'')"
  by (simp add: eval_defs plain_stroke_def two_points_def)

theorem postprocess_second_pass_witness:
  "\<exists>out. postprocess_style_objects reject_str (JArr [plain_stroke]) ''Van Gogh oil painting'' = Inr out \<and>
     postprocess_style_objects reject_str out ''Van Gogh oil painting'' = Inr out"
proof -
  from post_plain_oil_ok obtain out where
    out: "postprocess_style_objects reject_str (JArr [plain_stroke]) ''Van Gogh oil painting'' = Inr out"
    by (auto simp: ok_iff)
  from postprocess_second_pass [OF out] out show ?thesis
    by blast
qed

lemma dict_get_fill_present:
  "has_key m k \<Longrightarrow> dict_get (fill b p d m) k dflt = dict_get m k dflt"
  by (simp add: fill_def dict_get_setd_present)

lemma dict_get_fill_brushParams:
  "\<not> has_key m ''brushParams'' \<Longrightarrow>
   dict_get (fill b p d m) ''brushParams'' (JObj []) = (if is_image_obj d then JObj [] else JObj p)"
  by (simp add: fill_def dict_get_setd_new dict_get_absent)

lemma width_ok_update [simp]: "width_ok (AList.update ''metadata'' v d) = width_ok d"
  by (simp add: width_ok_def)

lemma enrich_wf:
  assumes "meta_ok d" "width_ok d"
  shows "\<exists>v f. enrich b p d = Inr (v, f) \<and> overlay_safe v"
proof -
  from assms(1) obtain m where m: "old_meta d = JObj m"
    and bp: "is_dict (dict_get m ''brushParams'' (JObj []))"
    by (auto simp: meta_ok_def split: json.splits)
  have "is_dict (dict_get (fill b p d m) ''brushParams'' (JObj []))"
    using bp by (cases "has_key m ''brushParams''")
      (simp_all add: dict_get_fill_present dict_get_fill_brushParams)
  then have "brush_params_of (AList.update ''metadata'' (JObj (fill b p d m)) d) \<noteq> None"
    by (auto simp: brush_params_of_def split: json.splits)
  with assms(2) enrich_dict [OF m, of b p] show ?thesis
    by (simp add: overlay_safe_def)
qed

lemma process_loop_wf:
  "\<forall>v \<in> set objs. well_formed v \<Longrightarrow>
   \<exists>ys f. process_loop b p objs = Inr (ys, f) \<and> (\<forall>v \<in> set ys. overlay_safe v)"
proof (induction objs)
  case Nil
  then show ?case by auto
next
  case (Cons v objs)
  then obtain ys f where r: "process_loop b p objs = Inr (ys, f)" "\<forall>v \<in> set ys. overlay_safe v"
    by auto
  show ?case
  proof (cases "is_dict v")
    case True
    then obtain d where v: "v = JObj d"
      by (cases v) auto
    with Cons.prems have "meta_ok d" "width_ok d"
      by (simp_all add: well_formed_def)
    from enrich_wf [OF this, of b p] obtain v' g where
      "enrich b p d = Inr (v', g)" "overlay_safe v'"
      by blast
    with r v show ?thesis
      by (simp add: ebind_def)
  next
    case False
    then have "overlay_safe v"
      by (cases v) (auto simp: overlay_safe_def)
    with False r show ?thesis
      by (cases v) (auto simp: ebind_def)
  qed
qed

lemma overlay_loop_safe:
  "\<forall>v \<in> set ys. overlay_safe v \<Longrightarrow> \<exists>ovs. overlay_loop sf p idx ys = Inr ovs"
proof (induction ys arbitrary: idx)
  case Nil
  then show ?case by simp
next
  case (Cons v ys)
  then obtain more where more: "overlay_loop sf p (Suc idx) ys = Inr more"
    by force
  show ?case
  proof (cases "is_dict v")
    case False
    with more show ?thesis
      by (cases v) auto
  next
    case True
    then obtain obj where v: "v = JObj obj"
      by (cases v) auto
    with Cons.prems have safe: "brush_params_of obj \<noteq> None" "width_ok obj"
      by (simp_all add: overlay_safe_def)
    then obtain m where m: "dict_get obj ''metadata'' (JObj []) = JObj m"
      by (auto simp: brush_params_of_def split: json.splits)
    obtain bo where bo: "bbox_from_path sf (dict_get obj ''pathData'' (JObj [])) = Inr bo"
      using bbox_total by blast
    show ?thesis
    proof (cases bo)
      case None
      with v m bo more show ?thesis
        by (simp add: ebind_def)
    next
      case (Some bb)
      from create_impasto_overlays_ok [OF safe, of bb p idx] obtain o1 where
        "create_impasto_overlays obj bb p idx = Inr o1"
        by blast
      with v m bo more Some show ?thesis
        by (simp add: ebind_def)
    qed
  qed
qed

lemma postprocess_ok:
  assumes "\<forall>v \<in> set objs. well_formed v"
  shows "\<exists>out. postprocess_style_objects sf (JArr objs) sp = Inr out"
proof -
  obtain b p where bp: "map_style_to_brush sp = (b, p)"
    by (cases "map_style_to_brush sp") auto
  from process_loop_wf [OF assms, of b p] obtain ys f where
    pl: "process_loop b p objs = Inr (ys, f)" and safe: "\<forall>v \<in> set ys. overlay_safe v"
    by blast
  from overlay_loop_safe [OF safe, of sf p 0] obtain ovs where
    "overlay_loop sf p 0 ys = Inr ovs"
    by blast
  with pl show ?thesis
    by (simp add: postprocess_list [OF bp] ebind_def)
qed

text \<open>
  C7. The claim is that post-processing never fails hard: an exception during enrichment
  should leave the objects as they are. The code does not do so. For an object whose
  \<^verbatim>\<open>metadata\<close> is the string \<^verbatim>\<open>"watercolor"\<close>, \<^verbatim>\<open>meta.setdefault\<close> raises
  \<^verbatim>\<open>AttributeError\<close>; the test \<^verbatim>\<open>isinstance(meta, dict)\<close> of the loop comes after
  that call, and neither \<^verbatim>\<open>_postprocess_style_objects\<close> nor
  \<^verbatim>\<open>style_transfer_canvas\<close> has a handler, so the pipeline call raises after the one
  Primary call.
\<close>

theorem postprocess_raises_at_string_metadata:
  "postprocess_style_objects reject_str (JArr [labelled_stroke]) ''watercolor'' =
     Inl AttributeError \<and>
   style_transfer_canvas reject_str (replies (Inr (JObj [(''objects'', JArr [labelled_stroke])])))
     (replies (Inl ''unused'')) Pair canvas ''watercolor'' =
     (Inl AttributeError, [(OpenAI, (canvas, ''watercolor''))])"
  by (simp add: eval_defs labelled_stroke_def)










subsection \<open>The pipelines\<close>

lemma error_payload_has_error [simp]: "py_contains ''error'' (error_payload e d) = Inr True"
  by (simp add: error_payload_def has_key_def)

lemma failed_attempt: "failed r \<Longrightarrow> py_contains ''error'' (attempt e r) = Inr True"
  by (auto simp: failed_def attempt_def split: sum.splits json.splits)







lemma complete_accept:
  assumes "openai (msg cs) = Inr (JObj d)" "\<not> has_key d ''error''"
  shows "complete_shape_from_canvas openai ollama msg cs = (Inr (JObj d), [(OpenAI, msg cs)])"
  using assms
  by (simp add: complete_shape_from_canvas_def openai_complete_shape_def attempt_def)

lemma complete_fallback:
  assumes "failed (openai (msg cs))"
  shows "complete_shape_from_canvas openai ollama msg cs =
           (Inr (attempt ''ollama_completion_failed'' (ollama (msg cs))),
            [(OpenAI, msg cs), (Ollama, msg cs)])"
  using failed_attempt [OF assms]
  by (simp add: complete_shape_from_canvas_def openai_complete_shape_def
      ollama_complete_shape_def)












text \<open>
  C6, as the code has it. \<^verbatim>\<open>complete_shape_from_canvas\<close> checks no structure: a
  Primary reply that is a dict without an \<^verbatim>\<open>error\<close> key is returned whatever it holds,
  with no Secondary call; only a raise or an \<^verbatim>\<open>error\<close> key makes the orchestrator
  call the Secondary, whose result is returned as it is.
\<close>

theorem complete_error_key_only:
  "(openai (msg cs) = Inr (JObj d) \<and> \<not> has_key d ''error'' \<longrightarrow>
      complete_shape_from_canvas openai ollama msg cs = (Inr (JObj d), [(OpenAI, msg cs)])) \<and>
   (failed (openai (msg cs)) \<longrightarrow>
      complete_shape_from_canvas openai ollama msg cs =
        (Inr (attempt ''ollama_completion_failed'' (ollama (msg cs))),
         [(OpenAI, msg cs), (Ollama, msg cs)]))"
  using complete_accept [where openai = openai and ollama = ollama and msg = msg and cs = cs and d = d]
    complete_fallback [where openai = openai and ollama = ollama and msg = msg and cs = cs]
  by blast

text \<open>
  The theorem at an error reply followed by a Secondary reply, and at a Primary reply
  without \<^verbatim>\<open>error\<close>.
\<close>

theorem complete_error_key_only_witness:
  "complete_shape_from_canvas (replies (Inr (JObj [(''error'', JStr ''overloaded'')])))
     (replies (Inr (JObj [(''complete'', JBool False)]))) JObj canvas =
     (Inr (JObj [(''complete'', JBool False)]), [(OpenAI, JObj canvas), (Ollama, JObj canvas)]) \<and>
   complete_shape_from_canvas (replies (Inr (JObj [(''complete'', JBool False)])))
     (replies (Inl ''unused'')) JObj canvas =
     (Inr (JObj [(''complete'', JBool False)]), [(OpenAI, JObj canvas)])"
proof -
  have 1: "failed (replies (Inr (JObj [(''error'', JStr ''overloaded'')])) (JObj canvas))"
    by (simp add: failed_def replies_def has_key_def)
  have 2: "replies (Inr (JObj [(''complete'', JBool False)])) (JObj canvas) =
             Inr (JObj [(''complete'', JBool False)]) \<and>
           \<not> has_key [(''complete'', JBool False)] ''error''"
    by (simp add: replies_def has_key_def)
  from 1 complete_error_key_only [of "replies (Inr (JObj [(''error'', JStr ''overloaded'')]))"
      JObj canvas "[]" "replies (Inr (JObj [(''complete'', JBool False)]))"]
  have a: "complete_shape_from_canvas (replies (Inr (JObj [(''error'', JStr ''overloaded'')])))
     (replies (Inr (JObj [(''complete'', JBool False)]))) JObj canvas =
     (Inr (JObj [(''complete'', JBool False)]), [(OpenAI, JObj canvas), (Ollama, JObj canvas)])"
    by (simp add: attempt_def replies_def)
  from 2 complete_error_key_only [of "replies (Inr (JObj [(''complete'', JBool False)]))"
      JObj canvas "[(''complete'', JBool False)]" "replies (Inl ''unused'')"]
  have b: "complete_shape_from_canvas (replies (Inr (JObj [(''complete'', JBool False)])))
     (replies (Inl ''unused'')) JObj canvas =
     (Inr (JObj [(''complete'', JBool False)]), [(OpenAI, JObj canvas)])"
    by simp
  from a b show ?thesis by simp
qed

text \<open>
  C6 as stated fails: the reply \<^verbatim>\<open>{"suggestion": "none"}\<close> has no \<^verbatim>\<open>object\<close>, no
  \<^verbatim>\<open>complete\<close> and no \<^verbatim>\<open>confidence\<close>, and it is returned as the result after the
  single Primary call.
\<close>

theorem complete_unchecked_counterexample:
  "\<not> spec_complete_valid (JObj [(''suggestion'', JStr ''none'')]) \<and>
   complete_shape_from_canvas (replies (Inr (JObj [(''suggestion'', JStr ''none'')])))
     (replies (Inl ''unused'')) JObj canvas =
     (Inr (JObj [(''suggestion'', JStr ''none'')]), [(OpenAI, JObj canvas)])"
  by (simp add: spec_complete_valid_def dict_get_def complete_shape_from_canvas_def
      openai_complete_shape_def attempt_def replies_def has_key_def)




end
